theory Spec2Isabelle
  imports Main
begin

section \<open>Data model of the IBM Cloud builder\<close>

text \<open>
  A value of Go's \<open>error\<close> interface, identified with the message its \<open>Error()\<close>
  method returns. \<open>errors.New(s)\<close> and \<open>fmt.Errorf(...)\<close> both build such a value.
\<close>

datatype error = GoError string

fun message :: "error \<Rightarrow> string" where
  "message (GoError s) = s"

text \<open>
  The fields of the SDK's \<open>communicator.Config\<close> that the builder reads or writes.
  \<open>SSHPrivateKey\<close> is a byte slice that the builder converts with \<open>string(...)\<close>.
\<close>

record CommConfig =
  Type :: string
  WinRMUser :: string
  SSHUsername :: string
  SSHPrivateKey :: string

text \<open>
  \<open>Config\<close>, field by field. The integer fields (\<open>int\<close>, \<open>int64\<close>) and the
  \<open>time.Duration\<close> (an \<open>int64\<close> of nanoseconds) are only compared with zero and
  copied, never computed with, so they are integers here. The embedded
  \<open>common.PackerConfig\<close> and \<open>config.KeyValueFilter\<close> and the interpolation context are
  never read by the builder's own code.
\<close>

record Config =
  Comm :: CommConfig
  Username :: string
  APIKey :: string
  ImageName :: string
  ImageDescription :: string
  ImageType :: string
  BaseImageId :: string
  BaseOsCode :: string
  UploadToDatacenters :: "string list"
  InstanceName :: string
  InstanceDomain :: string
  InstanceFlavor :: string
  InstanceLocalDiskFlag :: bool
  InstanceCpu :: int
  InstanceMemory :: int
  InstanceDiskCapacity :: int
  DatacenterName :: string
  PublicVlanId :: int
  InstanceNetworkSpeed :: int
  ProvisioningSshKeyId :: int
  InstancePublicSecurityGroupIds :: "int list"
  RawStateTimeout :: string
  StateTimeout :: int

definition IMAGE_TYPE_STANDARD :: string where
  "IMAGE_TYPE_STANDARD = ''standard''"

subsection \<open>Steps and the builder\<close>

text \<open>
  The host and configuration functions handed to the SDK's \<open>StepConnect\<close>; they are
  functions of this package that \<open>Run\<close> only names.
\<close>

datatype comm_host = winRMCommHost | sshCommHost

datatype comm_config = winRMConfig | sshConfig

text \<open>
  The step values \<open>Run\<close> builds. \<open>StepConnect\<close> carries its \<open>Config\<close>, \<open>Host\<close>,
  \<open>SSHConfig\<close> and \<open>WinRMConfig\<close> fields (an unset function field is \<open>None\<close>);
  \<open>stepCreateSshKey\<close> carries its \<open>PrivateKeyFile\<close>.
\<close>

datatype step =
    stepCreateSshKey string
  | stepCreateInstance
  | stepWaitforInstance
  | stepGrabPublicIP
  | StepConnect CommConfig comm_host "comm_config option" "comm_config option"
  | StepProvision
  | stepCaptureImage

text \<open>The Go type of a step value, without its fields.\<close>

datatype step_type =
    T_stepCreateSshKey
  | T_stepCreateInstance
  | T_stepWaitforInstance
  | T_stepGrabPublicIP
  | T_StepConnect
  | T_StepProvision
  | T_stepCaptureImage

fun type_of_step :: "step \<Rightarrow> step_type" where
  "type_of_step (stepCreateSshKey k) = T_stepCreateSshKey"
| "type_of_step stepCreateInstance = T_stepCreateInstance"
| "type_of_step stepWaitforInstance = T_stepWaitforInstance"
| "type_of_step stepGrabPublicIP = T_stepGrabPublicIP"
| "type_of_step (StepConnect c h s w) = T_StepConnect"
| "type_of_step StepProvision = T_StepProvision"
| "type_of_step stepCaptureImage = T_stepCaptureImage"

text \<open>
  \<open>Builder\<close>: its configuration and its runner, which is \<open>nil\<close> until \<open>Run\<close> stores a
  \<open>BasicRunner\<close> holding the steps.
\<close>

record Builder =
  config :: Config
  runner :: "step list option"

section \<open>Prepare\<close>

text \<open>
  \<open>packer.MultiError\<close> holds the list \<open>Errors\<close>. \<open>packer.MultiErrorAppend(err, errs...)\<close>
  is a function of the SDK: it allocates an empty \<open>MultiError\<close> when \<open>err\<close> is \<open>nil\<close>,
  appends \<open>errs\<close> to its \<open>Errors\<close> and returns it, so its result is never \<open>nil\<close>.
\<close>

record MultiError =
  Errors :: "error list"

definition MultiErrorAppend :: "MultiError option \<Rightarrow> error list \<Rightarrow> MultiError" where
  "MultiErrorAppend err errs =
     (let e = (case err of None \<Rightarrow> \<lparr>Errors = []\<rparr> | Some m \<Rightarrow> m)
      in e\<lparr>Errors := Errors e @ errs\<rparr>)"

text \<open>
  What \<open>Prepare\<close> calls outside this package, taken as parameters:
  \<^item> \<open>Decode\<close>: \<open>config.Decode\<close>, which writes the raw input into the builder's
    configuration and may return an error;
  \<^item> \<open>sprintfInstanceName\<close>: the string
    \<open>fmt.Sprintf("packer-ibmcloud-%s", time.Now().Unix())\<close> evaluates to, which depends
    on the clock;
  \<^item> \<open>commPrepare\<close>: \<open>communicator.Config.Prepare\<close>, which may rewrite the communicator
    configuration and returns a list of errors;
  \<^item> \<open>ParseDuration\<close>: \<open>time.ParseDuration\<close>, which returns a duration and an error;
  \<^item> \<open>multiErrorString\<close>: the \<open>Error()\<close> method of \<open>MultiError\<close>, which renders the
    collected errors as one string.
\<close>

record 'raw prepare_env =
  Decode :: "Config \<Rightarrow> 'raw list \<Rightarrow> Config \<times> error option"
  sprintfInstanceName :: string
  commPrepare :: "CommConfig \<Rightarrow> CommConfig \<times> error list"
  ParseDuration :: "string \<Rightarrow> int \<times> error option"
  multiErrorString :: "MultiError \<Rightarrow> string"

text \<open>
  Lines 102-129 of the package: a default value for each field left empty, one guarded
  assignment after the other.
\<close>

definition default_DatacenterName :: "Config \<Rightarrow> Config" where
  "default_DatacenterName c =
     (if DatacenterName c = '''' then c\<lparr>DatacenterName := ''ams01''\<rparr> else c)"

definition default_InstanceName :: "'raw prepare_env \<Rightarrow> Config \<Rightarrow> Config" where
  "default_InstanceName env c =
     (if InstanceName c = '''' then c\<lparr>InstanceName := sprintfInstanceName env\<rparr> else c)"

definition default_InstanceDomain :: "Config \<Rightarrow> Config" where
  "default_InstanceDomain c =
     (if InstanceDomain c = '''' then c\<lparr>InstanceDomain := ''defaultdomain.com''\<rparr> else c)"

definition default_ImageDescription :: "Config \<Rightarrow> Config" where
  "default_ImageDescription c =
     (if ImageDescription c = ''''
      then c\<lparr>ImageDescription := ''Instance snapshot. Generated by packer.io''\<rparr>
      else c)"

definition default_ImageType :: "Config \<Rightarrow> Config" where
  "default_ImageType c =
     (if ImageType c = '''' then c\<lparr>ImageType := IMAGE_TYPE_STANDARD\<rparr> else c)"

definition default_InstanceNetworkSpeed :: "Config \<Rightarrow> Config" where
  "default_InstanceNetworkSpeed c =
     (if InstanceNetworkSpeed c = 0 then c\<lparr>InstanceNetworkSpeed := 10\<rparr> else c)"

definition default_RawStateTimeout :: "Config \<Rightarrow> Config" where
  "default_RawStateTimeout c =
     (if RawStateTimeout c = '''' then c\<lparr>RawStateTimeout := ''10m''\<rparr> else c)"

text \<open>Lines 131-139: the default user of the communicator, by its type.\<close>

definition default_Comm_user :: "Config \<Rightarrow> Config" where
  "default_Comm_user c =
     (if Type (Comm c) = ''winrm''
      then (if WinRMUser (Comm c) = ''''
            then c\<lparr>Comm := (Comm c)\<lparr>WinRMUser := ''Administrator''\<rparr>\<rparr> else c)
      else if Type (Comm c) = ''ssh''
      then (if SSHUsername (Comm c) = ''''
            then c\<lparr>Comm := (Comm c)\<lparr>SSHUsername := ''root''\<rparr>\<rparr> else c)
      else c)"

text \<open>Lines 102-139 in order.\<close>

definition Prepare_defaults :: "'raw prepare_env \<Rightarrow> Config \<Rightarrow> Config" where
  "Prepare_defaults env c0 =
     (let c1 = default_DatacenterName c0;
          c2 = default_InstanceName env c1;
          c3 = default_InstanceDomain c2;
          c4 = default_ImageDescription c3;
          c5 = default_ImageType c4;
          c6 = default_InstanceNetworkSpeed c5;
          c7 = default_RawStateTimeout c6;
          c8 = default_Comm_user c7
      in c8)"

text \<open>
  Lines 142 and 146-164: the flag \<open>byFlavor\<close> starts true and is cleared by each
  strictly positive explicit sizing field; then one of two errors may be appended.
\<close>

definition byFlavor :: "Config \<Rightarrow> bool" where
  "byFlavor c =
     (let b0 = True;
          b1 = (if InstanceCpu c > 0 then False else b0);
          b2 = (if InstanceMemory c > 0 then False else b1);
          b3 = (if InstanceDiskCapacity c > 0 then False else b2)
      in b3)"

definition Prepare_sizing :: "Config \<Rightarrow> MultiError \<Rightarrow> MultiError" where
  "Prepare_sizing c errs =
     (if \<not> byFlavor c \<and> InstanceFlavor c \<noteq> ''''
      then MultiErrorAppend (Some errs)
             [GoError ''instance_flavor must be specified without instance_cpu, instance_memory, and instance_disk_capacity'']
      else if byFlavor c \<and> InstanceFlavor c = ''''
      then MultiErrorAppend (Some errs) [GoError ''instance_flavor must be specified'']
      else errs)"

text \<open>Lines 166-184: the required fields and the image type.\<close>

definition Prepare_required :: "Config \<Rightarrow> MultiError \<Rightarrow> MultiError" where
  "Prepare_required c errs0 =
     (let errs1 = (if APIKey c = ''''
                   then MultiErrorAppend (Some errs0)
                          [GoError ''api_key or the SOFTLAYER_API_KEY environment variable must be specified'']
                   else errs0);
          errs2 = (if Username c = ''''
                   then MultiErrorAppend (Some errs1)
                          [GoError ''username or the SOFTLAYER_USER_NAME environment variable must be specified'']
                   else errs1);
          errs3 = (if ImageName c = ''''
                   then MultiErrorAppend (Some errs2) [GoError ''image_name must be specified'']
                   else errs2);
          errs4 = (if ImageType c \<noteq> IMAGE_TYPE_STANDARD
                   then MultiErrorAppend (Some errs3)
                          [GoError (''Unknown image_type '' @ [CHR 0x27] @ ImageType c @ [CHR 0x27]
                                    @ ''. Must be '' @ [CHR 0x27] @ ''standard'' @ [CHR 0x27] @ ''.'')]
                   else errs3)
      in errs4)"

text \<open>Lines 186-194: the base image selector.\<close>

definition Prepare_base_image :: "Config \<Rightarrow> MultiError \<Rightarrow> MultiError" where
  "Prepare_base_image c errs0 =
     (let errs1 = (if BaseImageId c = '''' \<and> BaseOsCode c = ''''
                   then MultiErrorAppend (Some errs0)
                          [GoError ''please specify base_image_id or base_os_code'']
                   else errs0);
          errs2 = (if BaseImageId c \<noteq> '''' \<and> BaseOsCode c \<noteq> ''''
                   then MultiErrorAppend (Some errs1)
                          [GoError ''please specify only one of base_image_id or base_os_code'']
                   else errs1)
      in errs2)"

text \<open>
  Lines 196-201: the timeout string is parsed; a parse error is appended, and the
  returned duration is stored in either case.
\<close>

definition Prepare_timeout :: "'raw prepare_env \<Rightarrow> Config \<Rightarrow> MultiError \<Rightarrow> Config \<times> MultiError" where
  "Prepare_timeout env c errs =
     (case ParseDuration env (RawStateTimeout c) of
        (stateTimeout, Some err) \<Rightarrow>
          (c\<lparr>StateTimeout := stateTimeout\<rparr>,
           MultiErrorAppend (Some errs)
             [GoError (''Failed parsing state_timeout: '' @ message err)])
      | (stateTimeout, None) \<Rightarrow> (c\<lparr>StateTimeout := stateTimeout\<rparr>, errs))"

text \<open>
  Lines 141-201 in order: the list of validation errors that \<open>Prepare\<close> has collected
  when it reaches its last test, together with the configuration at that point. The
  argument is the configuration after the defaults.
\<close>

definition Prepare_checks :: "'raw prepare_env \<Rightarrow> Config \<Rightarrow> Config \<times> MultiError" where
  "Prepare_checks env c1 =
     (case commPrepare env (Comm c1) of
        (comm', commErrs) \<Rightarrow>
          (let c2 = c1\<lparr>Comm := comm'\<rparr>;
               errs0 = MultiErrorAppend None commErrs;
               errs1 = Prepare_sizing c2 errs0;
               errs2 = Prepare_required c2 errs1;
               errs3 = Prepare_base_image c2 errs2
           in Prepare_timeout env c2 errs3))"

text \<open>
  \<open>Prepare\<close>: the builder after the call and the returned error (\<open>retErr\<close>); the two
  string slices it returns are always \<open>nil\<close>. A decoding error returns at once.
\<close>

definition Prepare :: "'raw prepare_env \<Rightarrow> Builder \<Rightarrow> 'raw list \<Rightarrow> Builder \<times> error option" where
  "Prepare env self raws =
     (case Decode env (config self) raws of
        (c, Some err) \<Rightarrow> (self\<lparr>config := c\<rparr>, Some err)
      | (c, None) \<Rightarrow>
          (case Prepare_checks env (Prepare_defaults env c) of
             (c', errs) \<Rightarrow>
               (self\<lparr>config := c'\<rparr>,
                if length (Errors errs) > 0
                then Some (GoError (multiErrorString env errs))
                else None)))"

text \<open>
  The validation errors \<open>Prepare\<close> has collected when it reaches line 205, for a decoded
  configuration.
\<close>

definition Prepare_errs :: "'raw prepare_env \<Rightarrow> Config \<Rightarrow> MultiError" where
  "Prepare_errs env c = snd (Prepare_checks env (Prepare_defaults env c))"

section \<open>Run\<close>

text \<open>
  The values kept in the SDK's \<open>BasicStateBag\<close>, a map from string keys to values of any
  type. \<open>OtherV\<close> stands for a value of any type that \<open>Run\<close> neither stores nor expects.
\<close>

datatype ('client, 'ui, 'hook) bag_value =
    ConfigV Config
  | ClientV 'client
  | HookV 'hook
  | UiV 'ui
  | StringV string
  | ErrorV error
  | OtherV

type_synonym ('client, 'ui, 'hook) state_bag = "string \<rightharpoonup> ('client, 'ui, 'hook) bag_value"

record 'client Artifact =
  imageName :: string
  imageId :: string
  datacenterName :: string
  client :: 'client

text \<open>
  What \<open>Run\<close> gives back: the pair of an artifact and an error, each of which may be
  \<open>nil\<close>, or a panic when a type assertion on a value of the state bag fails.
\<close>

datatype 'client run_return =
    Return "'client Artifact option" "error option"
  | Panic

text \<open>What \<open>Run\<close> does that is visible outside: starting the runner, and log lines.\<close>

datatype event =
    RunnerRun "step list"
  | LogPrintln string

text \<open>
  What \<open>Run\<close> calls outside this file, taken as parameters:
  \<^item> \<open>New\<close>: \<open>SoftlayerClient{}.New(username, apiKey)\<close>;
  \<^item> \<open>BasicRunner_Run\<close>: the SDK's \<open>BasicRunner.Run\<close> on the given steps, as the state
    bag it leaves behind when it returns (it runs the steps, which write to the bag).
\<close>

record ('client, 'ui, 'hook) run_env =
  New :: "string \<Rightarrow> string \<Rightarrow> 'client"
  BasicRunner_Run ::
    "step list \<Rightarrow> ('client, 'ui, 'hook) state_bag \<Rightarrow> ('client, 'ui, 'hook) state_bag"

text \<open>
  Lines 228-259: the steps, chosen by the communicator type. No branch is taken for a
  type other than \<open>winrm\<close> and \<open>ssh\<close>, which leaves the empty slice.
\<close>

definition Run_steps :: "Config \<Rightarrow> step list" where
  "Run_steps c =
     (if Type (Comm c) = ''winrm''
      then [stepCreateInstance,
            stepWaitforInstance,
            stepGrabPublicIP,
            StepConnect (Comm c) winRMCommHost None (Some winRMConfig),
            stepWaitforInstance,
            StepProvision,
            stepCaptureImage]
      else if Type (Comm c) = ''ssh''
      then [stepCreateSshKey (SSHPrivateKey (Comm c)),
            stepCreateInstance,
            stepWaitforInstance,
            stepGrabPublicIP,
            StepConnect (Comm c) sshCommHost (Some sshConfig) None,
            StepProvision,
            stepCaptureImage]
      else [])"

record 'client run_result =
  builder :: Builder
  events :: "event list"
  returned :: "'client run_return"

text \<open>
  Lines 217-225: the client, and the state bag \<open>Run\<close> sets up for the steps.
\<close>

definition Run_state ::
  "('client, 'ui, 'hook) run_env \<Rightarrow> Builder \<Rightarrow> 'ui \<Rightarrow> 'hook \<Rightarrow> ('client, 'ui, 'hook) state_bag" where
  "Run_state env self ui hook =
     (let client = New env (Username (config self)) (APIKey (config self));
          state0 = (Map.empty :: ('client, 'ui, 'hook) state_bag);
          state1 = state0(''config'' \<mapsto> ConfigV (config self));
          state2 = state1(''client'' \<mapsto> ClientV client);
          state3 = state2(''hook'' \<mapsto> HookV hook);
          state4 = state3(''ui'' \<mapsto> UiV ui)
      in state4)"

text \<open>
  \<open>Run\<close>. The runner is created with the steps and run on the state bag; then the bag is
  read: an \<open>error\<close> entry is returned as the error (the type assertion \<open>rawErr.(error)\<close>
  panics on any other value); without an \<open>image_id\<close> entry a line is logged and both
  results are \<open>nil\<close>; otherwise the artifact is built (the type assertion
  \<open>state.Get("image_id").(string)\<close> panics on a value that is not a string).
\<close>

definition Run ::
  "('client, 'ui, 'hook) run_env \<Rightarrow> Builder \<Rightarrow> 'ui \<Rightarrow> 'hook \<Rightarrow> 'client run_result" where
  "Run env self ui hook =
     (let client = New env (Username (config self)) (APIKey (config self));
          steps = Run_steps (config self);
          self' = self\<lparr>runner := Some steps\<rparr>;
          state = BasicRunner_Run env steps (Run_state env self ui hook)
      in case state ''error'' of
           Some rawErr \<Rightarrow>
             (case rawErr of
                ErrorV e \<Rightarrow>
                  \<lparr>builder = self', events = [RunnerRun steps], returned = Return None (Some e)\<rparr>
              | _ \<Rightarrow> \<lparr>builder = self', events = [RunnerRun steps], returned = Panic\<rparr>)
         | None \<Rightarrow>
             (case state ''image_id'' of
                None \<Rightarrow>
                  \<lparr>builder = self',
                   events = [RunnerRun steps,
                             LogPrintln ''Failed to find image_id in state. Bug?''],
                   returned = Return None None\<rparr>
              | Some v \<Rightarrow>
                  (case v of
                     StringV s \<Rightarrow>
                       \<lparr>builder = self', events = [RunnerRun steps],
                        returned = Return (Some \<lparr>imageName = ImageName (config self),
                                                 imageId = s,
                                                 datacenterName = DatacenterName (config self),
                                                 client = client\<rparr>) None\<rparr>
                   | _ \<Rightarrow> \<lparr>builder = self', events = [RunnerRun steps], returned = Panic\<rparr>)))"

text \<open>
  What the caller of \<open>Run\<close> can tell a failure by: a panic, or an error that is not
  \<open>nil\<close>.
\<close>

fun is_failure :: "'client run_return \<Rightarrow> bool" where
  "is_failure Panic = True"
| "is_failure (Return a (Some e)) = True"
| "is_failure (Return a None) = False"

section \<open>Example inputs\<close>

text \<open>
  The zero value of \<open>Config\<close>, a builder as \<open>new(Builder)\<close> makes it, and a
  configuration that sets the required fields: communicator \<open>ssh\<close>, a base OS code and an
  instance flavor.
\<close>

definition Config_zero :: Config where
  "Config_zero =
     \<lparr>Comm = \<lparr>Type = '''', WinRMUser = '''', SSHUsername = '''', SSHPrivateKey = ''''\<rparr>,
      Username = '''', APIKey = '''', ImageName = '''', ImageDescription = '''',
      ImageType = '''', BaseImageId = '''', BaseOsCode = '''', UploadToDatacenters = [],
      InstanceName = '''', InstanceDomain = '''', InstanceFlavor = '''',
      InstanceLocalDiskFlag = False, InstanceCpu = 0, InstanceMemory = 0,
      InstanceDiskCapacity = 0, DatacenterName = '''', PublicVlanId = 0,
      InstanceNetworkSpeed = 0, ProvisioningSshKeyId = 0,
      InstancePublicSecurityGroupIds = [], RawStateTimeout = '''', StateTimeout = 0\<rparr>"

definition Builder_new :: Builder where
  "Builder_new = \<lparr>config = Config_zero, runner = None\<rparr>"

definition example_config :: Config where
  "example_config =
     Config_zero\<lparr>Comm := \<lparr>Type = ''ssh'', WinRMUser = '''', SSHUsername = '''',
                           SSHPrivateKey = ''''\<rparr>,
                 Username := ''user'', APIKey := ''key'', ImageName := ''img'',
                 BaseOsCode := ''UBUNTU_LATEST'', InstanceFlavor := ''B1_1X2X25''\<rparr>"

text \<open>
  Example collaborators for \<open>Prepare\<close>. The raw inputs of the example decoder are
  configurations already, and the last one is taken. The example communicator check
  follows the SDK's list of communicator types: an empty type becomes \<open>ssh\<close>; \<open>ssh\<close>,
  \<open>winrm\<close>, \<open>docker\<close>, \<open>dockerWindowsContainer\<close> and \<open>none\<close> are accepted; any other
  type is an error. The example parser holds three entries of Go's \<open>time.ParseDuration\<close>,
  which reads a signed sequence of decimal numbers with unit suffixes and the plain
  \<open>0\<close>: ten minutes, minus ten minutes and zero, in nanoseconds; the example rejects
  every other string. The example rendering lists the messages one per line.
\<close>

definition example_Decode :: "Config \<Rightarrow> Config list \<Rightarrow> Config \<times> error option" where
  "example_Decode c raws = (case raws of [] \<Rightarrow> (c, None) | r # rs \<Rightarrow> (last raws, None))"

definition example_commPrepare :: "CommConfig \<Rightarrow> CommConfig \<times> error list" where
  "example_commPrepare c0 =
     (let c = (if Type c0 = '''' then c0\<lparr>Type := ''ssh''\<rparr> else c0)
      in if Type c \<in> set [''ssh'', ''winrm'', ''docker'', ''dockerWindowsContainer'', ''none'']
         then (c, [])
         else (c, [GoError (''Communicator type '' @ Type c @ '' is invalid'')]))"

definition example_ParseDuration :: "string \<Rightarrow> int \<times> error option" where
  "example_ParseDuration s =
     (if s = ''10m'' then (600000000000, None)
      else if s = ''-10m'' then (- 600000000000, None)
      else if s = ''0'' then (0, None)
      else (0, Some (GoError (''time: invalid duration '' @ s))))"

definition example_multiErrorString :: "MultiError \<Rightarrow> string" where
  "example_multiErrorString m =
     concat (map (\<lambda>e. ''* '' @ message e @ [CHR 0x0A]) (Errors m))"

definition example_prepare_env :: "Config prepare_env" where
  "example_prepare_env =
     \<lparr>Decode = example_Decode,
      sprintfInstanceName = ''packer-ibmcloud-%!s(int64=1700000000)'',
      commPrepare = example_commPrepare,
      ParseDuration = example_ParseDuration,
      multiErrorString = example_multiErrorString\<rparr>"

text \<open>
  Example collaborators for \<open>Run\<close>: a client that is the pair of its credentials, and
  three runs of the runner: one that writes nothing to the state bag (as a run of no
  steps does), one that ends with an error, and one that ends with an image id.
\<close>

definition example_idle_env :: "(string \<times> string, unit, unit) run_env" where
  "example_idle_env = \<lparr>New = (\<lambda>u k. (u, k)), BasicRunner_Run = (\<lambda>steps state. state)\<rparr>"

definition example_error_env :: "(string \<times> string, unit, unit) run_env" where
  "example_error_env =
     \<lparr>New = (\<lambda>u k. (u, k)),
      BasicRunner_Run =
        (\<lambda>steps state. state(''instance_id'' \<mapsto> StringV ''1234'',
                                ''error'' \<mapsto> ErrorV (GoError ''capture failed'')))\<rparr>"

definition example_image_env :: "(string \<times> string, unit, unit) run_env" where
  "example_image_env =
     \<lparr>New = (\<lambda>u k. (u, k)),
      BasicRunner_Run =
        (\<lambda>steps state. state(''instance_id'' \<mapsto> StringV ''1234'',
                                ''image_id'' \<mapsto> StringV ''5678''))\<rparr>"

text \<open>
  The same configuration with the communicator type \<open>none\<close>, and the builders that
  \<open>Prepare\<close> leaves behind for the two configurations.
\<close>

definition example_config_none :: Config where
  "example_config_none = example_config\<lparr>Comm := (Comm example_config)\<lparr>Type := ''none''\<rparr>\<rparr>"

definition example_builder :: Builder where
  "example_builder = fst (Prepare example_prepare_env Builder_new [example_config])"

definition example_builder_none :: Builder where
  "example_builder_none = fst (Prepare example_prepare_env Builder_new [example_config_none])"

section \<open>Properties of the checks inside Prepare\<close>

text \<open>
  Each check of \<open>Prepare\<close> appends to the collected errors and never removes one, the
  defaults leave the checked fields alone except for the image type and the timeout
  string, and the collected list is the concatenation of what the communicator check,
  the sizing check, the required fields, the base image check and the timeout check
  contribute, in that order.
\<close>

lemma byFlavor_iff:
  "byFlavor c \<longleftrightarrow> InstanceCpu c \<le> 0 \<and> InstanceMemory c \<le> 0 \<and> InstanceDiskCapacity c \<le> 0"
  by (auto simp: byFlavor_def Let_def)

lemma Errors_MultiErrorAppend_Some:
  "Errors (MultiErrorAppend (Some m) es) = Errors m @ es"
  by (simp add: MultiErrorAppend_def)

lemma Errors_MultiErrorAppend_None:
  "Errors (MultiErrorAppend None es) = es"
  by (simp add: MultiErrorAppend_def)

lemma Errors_Prepare_sizing:
  "Errors (Prepare_sizing c errs) = Errors errs @
     (if \<not> byFlavor c \<and> InstanceFlavor c \<noteq> ''''
      then [GoError ''instance_flavor must be specified without instance_cpu, instance_memory, and instance_disk_capacity'']
      else if byFlavor c \<and> InstanceFlavor c = ''''
      then [GoError ''instance_flavor must be specified'']
      else [])"
  by (simp add: Prepare_sizing_def Errors_MultiErrorAppend_Some)

lemma Errors_Prepare_required:
  "Errors (Prepare_required c errs) = Errors errs @
     (if APIKey c = ''''
      then [GoError ''api_key or the SOFTLAYER_API_KEY environment variable must be specified'']
      else []) @
     (if Username c = ''''
      then [GoError ''username or the SOFTLAYER_USER_NAME environment variable must be specified'']
      else []) @
     (if ImageName c = '''' then [GoError ''image_name must be specified''] else []) @
     (if ImageType c \<noteq> IMAGE_TYPE_STANDARD
      then [GoError (''Unknown image_type '' @ [CHR 0x27] @ ImageType c @ [CHR 0x27]
                     @ ''. Must be '' @ [CHR 0x27] @ ''standard'' @ [CHR 0x27] @ ''.'')]
      else [])"
  by (simp add: Prepare_required_def Let_def Errors_MultiErrorAppend_Some)

lemma Errors_Prepare_base_image:
  "Errors (Prepare_base_image c errs) = Errors errs @
     (if BaseImageId c = '''' \<and> BaseOsCode c = ''''
      then [GoError ''please specify base_image_id or base_os_code''] else []) @
     (if BaseImageId c \<noteq> '''' \<and> BaseOsCode c \<noteq> ''''
      then [GoError ''please specify only one of base_image_id or base_os_code''] else [])"
  by (simp add: Prepare_base_image_def Let_def Errors_MultiErrorAppend_Some)

lemma Errors_Prepare_timeout:
  "Errors (snd (Prepare_timeout env c errs)) = Errors errs @
     (case snd (ParseDuration env (RawStateTimeout c)) of
        Some err \<Rightarrow> [GoError (''Failed parsing state_timeout: '' @ message err)]
      | None \<Rightarrow> [])"
  by (simp add: Prepare_timeout_def Errors_MultiErrorAppend_Some split: prod.splits option.splits)

lemma config_Prepare_timeout:
  "fst (Prepare_timeout env c errs) = c\<lparr>StateTimeout := fst (ParseDuration env (RawStateTimeout c))\<rparr>"
  by (simp add: Prepare_timeout_def split: prod.splits option.splits)

lemma default_DatacenterName_upd:
  "default_DatacenterName c =
     c\<lparr>DatacenterName := (if DatacenterName c = '''' then ''ams01'' else DatacenterName c)\<rparr>"
  by (cases "DatacenterName c = ''''") (simp_all add: default_DatacenterName_def)

lemma default_InstanceName_upd:
  "default_InstanceName env c =
     c\<lparr>InstanceName := (if InstanceName c = '''' then sprintfInstanceName env else InstanceName c)\<rparr>"
  by (cases "InstanceName c = ''''") (simp_all add: default_InstanceName_def)

lemma default_InstanceDomain_upd:
  "default_InstanceDomain c =
     c\<lparr>InstanceDomain := (if InstanceDomain c = '''' then ''defaultdomain.com'' else InstanceDomain c)\<rparr>"
  by (cases "InstanceDomain c = ''''") (simp_all add: default_InstanceDomain_def)

lemma default_ImageDescription_upd:
  "default_ImageDescription c =
     c\<lparr>ImageDescription := (if ImageDescription c = ''''
                             then ''Instance snapshot. Generated by packer.io''
                             else ImageDescription c)\<rparr>"
  by (cases "ImageDescription c = ''''") (simp_all add: default_ImageDescription_def)

lemma default_ImageType_upd:
  "default_ImageType c =
     c\<lparr>ImageType := (if ImageType c = '''' then IMAGE_TYPE_STANDARD else ImageType c)\<rparr>"
  by (cases "ImageType c = ''''") (simp_all add: default_ImageType_def)

lemma default_InstanceNetworkSpeed_upd:
  "default_InstanceNetworkSpeed c =
     c\<lparr>InstanceNetworkSpeed := (if InstanceNetworkSpeed c = 0 then 10 else InstanceNetworkSpeed c)\<rparr>"
  by (cases "InstanceNetworkSpeed c = 0") (simp_all add: default_InstanceNetworkSpeed_def)

lemma default_RawStateTimeout_upd:
  "default_RawStateTimeout c =
     c\<lparr>RawStateTimeout := (if RawStateTimeout c = '''' then ''10m'' else RawStateTimeout c)\<rparr>"
  by (cases "RawStateTimeout c = ''''") (simp_all add: default_RawStateTimeout_def)

lemma default_Comm_user_upd:
  "default_Comm_user c =
     c\<lparr>Comm := (Comm c)
        \<lparr>WinRMUser := (if Type (Comm c) = ''winrm'' \<and> WinRMUser (Comm c) = ''''
                       then ''Administrator'' else WinRMUser (Comm c)),
         SSHUsername := (if Type (Comm c) \<noteq> ''winrm'' \<and> Type (Comm c) = ''ssh''
                            \<and> SSHUsername (Comm c) = ''''
                         then ''root'' else SSHUsername (Comm c))\<rparr>\<rparr>"
proof (cases "Type (Comm c) = ''winrm''")
  case True
  then show ?thesis
    by (cases "WinRMUser (Comm c) = ''''") (simp_all add: default_Comm_user_def)
next
  case False
  then show ?thesis
    by (cases "Type (Comm c) = ''ssh''"; cases "SSHUsername (Comm c) = ''''")
       (simp_all add: default_Comm_user_def)
qed

lemmas default_upds =
  default_DatacenterName_upd default_InstanceName_upd default_InstanceDomain_upd
  default_ImageDescription_upd default_ImageType_upd default_InstanceNetworkSpeed_upd
  default_RawStateTimeout_upd default_Comm_user_upd

lemma Prepare_defaults_kept:
  "InstanceFlavor (Prepare_defaults env c) = InstanceFlavor c"
  "InstanceCpu (Prepare_defaults env c) = InstanceCpu c"
  "InstanceMemory (Prepare_defaults env c) = InstanceMemory c"
  "InstanceDiskCapacity (Prepare_defaults env c) = InstanceDiskCapacity c"
  "APIKey (Prepare_defaults env c) = APIKey c"
  "Username (Prepare_defaults env c) = Username c"
  "ImageName (Prepare_defaults env c) = ImageName c"
  "BaseImageId (Prepare_defaults env c) = BaseImageId c"
  "BaseOsCode (Prepare_defaults env c) = BaseOsCode c"
  "Type (Comm (Prepare_defaults env c)) = Type (Comm c)"
  by (simp_all add: Prepare_defaults_def Let_def default_upds)

lemma Prepare_defaults_changed:
  "ImageType (Prepare_defaults env c) = (if ImageType c = '''' then IMAGE_TYPE_STANDARD else ImageType c)"
  "RawStateTimeout (Prepare_defaults env c) = (if RawStateTimeout c = '''' then ''10m'' else RawStateTimeout c)"
  by (simp_all add: Prepare_defaults_def Let_def default_upds)

lemma byFlavor_Comm_update: "byFlavor (c\<lparr>Comm := x\<rparr>) = byFlavor c"
  by (simp add: byFlavor_def)

lemma Prepare_sizing_Errors_Comm:
  "Errors (Prepare_sizing (c\<lparr>Comm := x\<rparr>) errs) = Errors errs @ Errors (Prepare_sizing c \<lparr>Errors = []\<rparr>)"
  by (simp add: Errors_Prepare_sizing byFlavor_Comm_update)

lemma Prepare_required_Errors_Comm:
  "Errors (Prepare_required (c\<lparr>Comm := x\<rparr>) errs) = Errors errs @ Errors (Prepare_required c \<lparr>Errors = []\<rparr>)"
  by (simp add: Errors_Prepare_required)

lemma Prepare_base_image_Errors_Comm:
  "Errors (Prepare_base_image (c\<lparr>Comm := x\<rparr>) errs) = Errors errs @ Errors (Prepare_base_image c \<lparr>Errors = []\<rparr>)"
  by (simp add: Errors_Prepare_base_image)

lemma Prepare_timeout_Errors_Comm:
  "Errors (snd (Prepare_timeout env (c\<lparr>Comm := x\<rparr>) errs)) =
     Errors errs @ Errors (snd (Prepare_timeout env c \<lparr>Errors = []\<rparr>))"
  by (simp add: Errors_Prepare_timeout)

lemma Errors_Prepare_checks:
  "Errors (snd (Prepare_checks env c)) =
     snd (commPrepare env (Comm c))
     @ Errors (Prepare_sizing c \<lparr>Errors = []\<rparr>)
     @ Errors (Prepare_required c \<lparr>Errors = []\<rparr>)
     @ Errors (Prepare_base_image c \<lparr>Errors = []\<rparr>)
     @ Errors (snd (Prepare_timeout env c \<lparr>Errors = []\<rparr>))"
proof -
  obtain comm' commErrs where cp: "commPrepare env (Comm c) = (comm', commErrs)"
    by (cases "commPrepare env (Comm c)")
  show ?thesis
    unfolding Prepare_checks_def cp
    by (simp add: Let_def Prepare_timeout_Errors_Comm Prepare_base_image_Errors_Comm
          Prepare_required_Errors_Comm Prepare_sizing_Errors_Comm
          Errors_MultiErrorAppend_None)
qed

lemma config_Prepare_checks:
  "fst (Prepare_checks env c) =
     c\<lparr>Comm := fst (commPrepare env (Comm c)),
       StateTimeout := fst (ParseDuration env (RawStateTimeout c))\<rparr>"
proof -
  obtain comm' commErrs where cp: "commPrepare env (Comm c) = (comm', commErrs)"
    by (cases "commPrepare env (Comm c)")
  show ?thesis
    unfolding Prepare_checks_def cp
    by (simp add: Let_def config_Prepare_timeout)
qed

lemma Prepare_decoded:
  assumes "Decode env (config self) raws = (c, None)"
  shows "Prepare env self raws =
     (self\<lparr>config := fst (Prepare_checks env (Prepare_defaults env c))\<rparr>,
      if Errors (snd (Prepare_checks env (Prepare_defaults env c))) = [] then None
      else Some (GoError (multiErrorString env (snd (Prepare_checks env (Prepare_defaults env c))))))"
  using assms by (simp add: Prepare_def split: prod.splits)

lemma Prepare_decode_error:
  assumes "Decode env (config self) raws = (c, Some err)"
  shows "Prepare env self raws = (self\<lparr>config := c\<rparr>, Some err)"
  using assms by (simp add: Prepare_def)

lemma Prepare_accepts_iff:
  assumes "Decode env (config self) raws = (c, None)"
  shows "snd (Prepare env self raws) = None \<longleftrightarrow>
           snd (commPrepare env (Comm (Prepare_defaults env c))) = []
         \<and> Errors (Prepare_sizing (Prepare_defaults env c) \<lparr>Errors = []\<rparr>) = []
         \<and> Errors (Prepare_required (Prepare_defaults env c) \<lparr>Errors = []\<rparr>) = []
         \<and> Errors (Prepare_base_image (Prepare_defaults env c) \<lparr>Errors = []\<rparr>) = []
         \<and> Errors (snd (Prepare_timeout env (Prepare_defaults env c) \<lparr>Errors = []\<rparr>)) = []"
  by (simp add: Prepare_decoded[OF assms] Errors_Prepare_checks)

lemma Errors_Prepare_errs:
  "Errors (Prepare_errs env c) =
     snd (commPrepare env (Comm (Prepare_defaults env c)))
     @ Errors (Prepare_sizing c \<lparr>Errors = []\<rparr>)
     @ Errors (Prepare_required (Prepare_defaults env c) \<lparr>Errors = []\<rparr>)
     @ Errors (Prepare_base_image c \<lparr>Errors = []\<rparr>)
     @ Errors (snd (Prepare_timeout env (Prepare_defaults env c) \<lparr>Errors = []\<rparr>))"
  by (simp add: Prepare_errs_def Errors_Prepare_checks Errors_Prepare_sizing
        Errors_Prepare_base_image byFlavor_def Prepare_defaults_kept)

lemma example_Decode_single:
  "Decode example_prepare_env (config self) [c] = (c, None)"
  by (simp add: example_prepare_env_def example_Decode_def)

subsection \<open>What Run does with the runner\<close>

lemma Run_events_hd:
  "hd (events (Run env self ui hook)) = RunnerRun (Run_steps (config self))"
  by (simp add: Run_def Let_def split: option.splits bag_value.splits)

lemma Run_builder:
  "builder (Run env self ui hook) = self\<lparr>runner := Some (Run_steps (config self))\<rparr>"
  by (simp add: Run_def Let_def split: option.splits bag_value.splits)

section \<open>The step sequence\<close>

text \<open>
  Claim C1. \<open>Run\<close> chooses the steps from the communicator type alone, read from the
  builder's configuration when \<open>Run\<close> starts. For \<open>ssh\<close> the steps are, in order,
  \<open>stepCreateSshKey\<close>, \<open>stepCreateInstance\<close>, \<open>stepWaitforInstance\<close>,
  \<open>stepGrabPublicIP\<close>, \<open>StepConnect\<close>, \<open>StepProvision\<close>, \<open>stepCaptureImage\<close>. For
  \<open>winrm\<close> they are \<open>stepCreateInstance\<close>, \<open>stepWaitforInstance\<close>, \<open>stepGrabPublicIP\<close>,
  \<open>StepConnect\<close>, \<open>stepWaitforInstance\<close>, \<open>StepProvision\<close>, \<open>stepCaptureImage\<close>: the
  wait step occurs exactly twice, at the second place before the connect step and at
  the fifth place after it. Two configurations with the same communicator type get the
  same sequence of step types. These steps are the ones the runner is started with and
  the ones stored in the builder.
\<close>

theorem Run_steps_by_communicator:
  "(Type (Comm (config self)) = ''ssh'' \<longrightarrow>
      map type_of_step (Run_steps (config self)) =
        [T_stepCreateSshKey, T_stepCreateInstance, T_stepWaitforInstance, T_stepGrabPublicIP,
         T_StepConnect, T_StepProvision, T_stepCaptureImage])
   \<and> (Type (Comm (config self)) = ''winrm'' \<longrightarrow>
      map type_of_step (Run_steps (config self)) =
        [T_stepCreateInstance, T_stepWaitforInstance, T_stepGrabPublicIP,
         T_StepConnect, T_stepWaitforInstance, T_StepProvision, T_stepCaptureImage]
      \<and> count_list (map type_of_step (Run_steps (config self))) T_stepWaitforInstance = 2)
   \<and> (Type (Comm (config self)) = Type (Comm c') \<longrightarrow>
      map type_of_step (Run_steps (config self)) = map type_of_step (Run_steps c'))
   \<and> hd (events (Run env self ui hook)) = RunnerRun (Run_steps (config self))
   \<and> runner (builder (Run env self ui hook)) = Some (Run_steps (config self))"
  by (simp add: Run_events_hd Run_builder Run_steps_def)

theorem Run_steps_by_communicator_witness:
  "Type (Comm (config example_builder)) = ''ssh''
   \<and> Type (Comm (config example_builder)) = Type (Comm (example_config\<lparr>ImageName := ''other''\<rparr>))
   \<and> map type_of_step (Run_steps (config example_builder)) =
        [T_stepCreateSshKey, T_stepCreateInstance, T_stepWaitforInstance, T_stepGrabPublicIP,
         T_StepConnect, T_StepProvision, T_stepCaptureImage]
   \<and> map type_of_step (Run_steps (example_config\<lparr>ImageName := ''other''\<rparr>)) =
        map type_of_step (Run_steps (config example_builder))
   \<and> hd (events (Run example_image_env example_builder () ())) =
        RunnerRun (Run_steps (config example_builder))
   \<and> Type (Comm (config (example_builder\<lparr>config :=
          example_config\<lparr>Comm := (Comm example_config)\<lparr>Type := ''winrm''\<rparr>\<rparr>\<rparr>))) = ''winrm''
   \<and> map type_of_step (Run_steps (config (example_builder\<lparr>config :=
          example_config\<lparr>Comm := (Comm example_config)\<lparr>Type := ''winrm''\<rparr>\<rparr>\<rparr>))) =
        [T_stepCreateInstance, T_stepWaitforInstance, T_stepGrabPublicIP,
         T_StepConnect, T_stepWaitforInstance, T_StepProvision, T_stepCaptureImage]"
  using Run_steps_by_communicator[of example_builder "example_config\<lparr>ImageName := ''other''\<rparr>"
          example_image_env "()" "()"]
        Run_steps_by_communicator[of "example_builder\<lparr>config :=
          example_config\<lparr>Comm := (Comm example_config)\<lparr>Type := ''winrm''\<rparr>\<rparr>\<rparr>"
          example_config example_image_env "()" "()"]
  by code_simp

section \<open>What Run returns\<close>

text \<open>
  Claim C2, as the code has it. When the run ends with neither an \<open>error\<close> entry nor an
  \<open>image_id\<close> entry in the state bag, \<open>Run\<close> writes the log line
  \<open>Failed to find image_id in state. Bug?\<close> and returns a \<open>nil\<close> artifact together with
  a \<open>nil\<close> error: no artifact is returned, and nothing tells the caller of a failure.
\<close>

theorem Run_no_error_no_image:
  assumes "BasicRunner_Run env (Run_steps (config self)) (Run_state env self ui hook) ''error''
             = None"
      and "BasicRunner_Run env (Run_steps (config self)) (Run_state env self ui hook) ''image_id''
             = None"
  shows "returned (Run env self ui hook) = Return None None
       \<and> \<not> is_failure (returned (Run env self ui hook))
       \<and> events (Run env self ui hook) =
           [RunnerRun (Run_steps (config self)),
            LogPrintln ''Failed to find image_id in state. Bug?'']"
  using assms by (simp add: Run_def Let_def)

theorem Run_no_error_no_image_witness:
  "BasicRunner_Run example_idle_env (Run_steps (config example_builder))
     (Run_state example_idle_env example_builder () ()) ''error'' = None
   \<and> BasicRunner_Run example_idle_env (Run_steps (config example_builder))
     (Run_state example_idle_env example_builder () ()) ''image_id'' = None
   \<and> returned (Run example_idle_env example_builder () ()) = Return None None
   \<and> events (Run example_idle_env example_builder () ()) =
       [RunnerRun (Run_steps (config example_builder)),
        LogPrintln ''Failed to find image_id in state. Bug?'']"
proof -
  have e: "BasicRunner_Run example_idle_env (Run_steps (config example_builder))
     (Run_state example_idle_env example_builder () ()) ''error'' = None"
    by code_simp
  have i: "BasicRunner_Run example_idle_env (Run_steps (config example_builder))
     (Run_state example_idle_env example_builder () ()) ''image_id'' = None"
    by code_simp
  show ?thesis
    using e i Run_no_error_no_image[OF e i] by simp
qed

text \<open>
  Claim C2 as stated fails: with the communicator type \<open>none\<close> there are no steps, the
  run writes nothing to the state bag, and \<open>Run\<close> returns \<open>nil, nil\<close>, which is neither a
  panic nor an error.
\<close>

theorem Run_no_image_not_a_failure:
  "BasicRunner_Run example_idle_env (Run_steps (config example_builder_none))
     (Run_state example_idle_env example_builder_none () ()) ''error'' = None
   \<and> BasicRunner_Run example_idle_env (Run_steps (config example_builder_none))
     (Run_state example_idle_env example_builder_none () ()) ''image_id'' = None
   \<and> \<not> is_failure (returned (Run example_idle_env example_builder_none () ()))"
  by code_simp

text \<open>
  Claim C5. When the run ends with an \<open>error\<close> entry in the state bag (holding an error
  value), \<open>Run\<close> returns that error and a \<open>nil\<close> artifact, whatever else the state bag
  holds.
\<close>

theorem Run_returns_error:
  assumes "BasicRunner_Run env (Run_steps (config self)) (Run_state env self ui hook) ''error''
             = Some (ErrorV e)"
  shows "returned (Run env self ui hook) = Return None (Some e)"
  using assms by (simp add: Run_def Let_def)

theorem Run_returns_error_witness:
  "BasicRunner_Run example_error_env (Run_steps (config example_builder))
     (Run_state example_error_env example_builder () ()) ''error''
     = Some (ErrorV (GoError ''capture failed''))
   \<and> returned (Run example_error_env example_builder () ())
     = Return None (Some (GoError ''capture failed''))"
proof -
  have e: "BasicRunner_Run example_error_env (Run_steps (config example_builder))
     (Run_state example_error_env example_builder () ()) ''error''
     = Some (ErrorV (GoError ''capture failed''))"
    by code_simp
  show ?thesis
    using e Run_returns_error[OF e] by simp
qed

text \<open>
  Claim C9. When the run ends with no \<open>error\<close> entry and an \<open>image_id\<close> entry (holding a
  string), \<open>Run\<close> returns a \<open>nil\<close> error and an artifact whose image name and datacenter
  name are those of the configuration and whose image id is the stored string; its
  client is the one \<open>Run\<close> created.
\<close>

theorem Run_returns_artifact:
  assumes "BasicRunner_Run env (Run_steps (config self)) (Run_state env self ui hook) ''error''
             = None"
      and "BasicRunner_Run env (Run_steps (config self)) (Run_state env self ui hook) ''image_id''
             = Some (StringV i)"
  shows "returned (Run env self ui hook) =
           Return (Some \<lparr>imageName = ImageName (config self),
                          imageId = i,
                          datacenterName = DatacenterName (config self),
                          client = New env (Username (config self)) (APIKey (config self))\<rparr>)
                  None"
  using assms by (simp add: Run_def Let_def)

theorem Run_returns_artifact_witness:
  "BasicRunner_Run example_image_env (Run_steps (config example_builder))
     (Run_state example_image_env example_builder () ()) ''error'' = None
   \<and> BasicRunner_Run example_image_env (Run_steps (config example_builder))
     (Run_state example_image_env example_builder () ()) ''image_id'' = Some (StringV ''5678'')
   \<and> returned (Run example_image_env example_builder () ()) =
       Return (Some \<lparr>imageName = ''img'', imageId = ''5678'', datacenterName = ''ams01'',
                      client = (''user'', ''key'')\<rparr>) None"
proof -
  have e: "BasicRunner_Run example_image_env (Run_steps (config example_builder))
     (Run_state example_image_env example_builder () ()) ''error'' = None"
    by code_simp
  have i: "BasicRunner_Run example_image_env (Run_steps (config example_builder))
     (Run_state example_image_env example_builder () ()) ''image_id'' = Some (StringV ''5678'')"
    by code_simp
  have v: "ImageName (config example_builder) = ''img''
        \<and> DatacenterName (config example_builder) = ''ams01''
        \<and> New example_image_env (Username (config example_builder))
             (APIKey (config example_builder)) = (''user'', ''key'')"
    by code_simp
  show ?thesis
    using e i v Run_returns_artifact[OF e i] by simp
qed

section \<open>The validation rules of Prepare\<close>

text \<open>
  Claim C3. The instance sizing is given either by \<open>instance_flavor\<close> or by explicit
  sizing, which the code takes to be present when one of \<open>instance_cpu\<close>,
  \<open>instance_memory\<close>, \<open>instance_disk_capacity\<close> is strictly positive. For a decoded
  configuration with both forms, and for one with neither, \<open>Prepare\<close> returns an error.
  With exactly one form the sizing check adds nothing: \<open>Prepare\<close> accepts the
  configuration exactly when the other checks (communicator, required fields, base
  image, timeout) find no error.
\<close>

theorem Prepare_sizing_exactly_one:
  assumes "Decode env (config self) raws = (c, None)"
  shows "(InstanceFlavor c \<noteq> '''' \<and>
            (0 < InstanceCpu c \<or> 0 < InstanceMemory c \<or> 0 < InstanceDiskCapacity c)
          \<longrightarrow> snd (Prepare env self raws) \<noteq> None)
       \<and> (InstanceFlavor c = '''' \<and>
            \<not> (0 < InstanceCpu c \<or> 0 < InstanceMemory c \<or> 0 < InstanceDiskCapacity c)
          \<longrightarrow> snd (Prepare env self raws) \<noteq> None)
       \<and> ((InstanceFlavor c \<noteq> '''') \<noteq>
            (0 < InstanceCpu c \<or> 0 < InstanceMemory c \<or> 0 < InstanceDiskCapacity c)
          \<longrightarrow> (snd (Prepare env self raws) = None \<longleftrightarrow>
                 snd (commPrepare env (Comm (Prepare_defaults env c))) = []
               \<and> Errors (Prepare_required (Prepare_defaults env c) \<lparr>Errors = []\<rparr>) = []
               \<and> Errors (Prepare_base_image (Prepare_defaults env c) \<lparr>Errors = []\<rparr>) = []
               \<and> Errors (snd (Prepare_timeout env (Prepare_defaults env c) \<lparr>Errors = []\<rparr>)) = []))"
proof -
  have sz: "Errors (Prepare_sizing (Prepare_defaults env c) \<lparr>Errors = []\<rparr>) = [] \<longleftrightarrow>
            (InstanceFlavor c \<noteq> '''') \<noteq>
            (0 < InstanceCpu c \<or> 0 < InstanceMemory c \<or> 0 < InstanceDiskCapacity c)"
    by (auto simp: Errors_Prepare_sizing byFlavor_iff Prepare_defaults_kept)
  show ?thesis
    unfolding Prepare_accepts_iff[OF assms] using sz by blast
qed

theorem Prepare_sizing_exactly_one_witness:
  "Decode example_prepare_env (config Builder_new) [example_config] = (example_config, None)
   \<and> InstanceFlavor example_config \<noteq> ''''
   \<and> \<not> (0 < InstanceCpu example_config \<or> 0 < InstanceMemory example_config
          \<or> 0 < InstanceDiskCapacity example_config)
   \<and> snd (Prepare example_prepare_env Builder_new [example_config]) = None
   \<and> snd (Prepare example_prepare_env Builder_new [example_config\<lparr>InstanceCpu := 2\<rparr>]) \<noteq> None
   \<and> snd (Prepare example_prepare_env Builder_new [example_config\<lparr>InstanceFlavor := ''''\<rparr>])
        \<noteq> None
   \<and> snd (Prepare example_prepare_env Builder_new
             [example_config\<lparr>InstanceFlavor := '''', InstanceMemory := 4\<rparr>]) = None"
  using Prepare_sizing_exactly_one[of example_prepare_env Builder_new "[example_config]"
          example_config, OF example_Decode_single]
        Prepare_sizing_exactly_one[of example_prepare_env Builder_new
          "[example_config\<lparr>InstanceCpu := 2\<rparr>]" "example_config\<lparr>InstanceCpu := 2\<rparr>",
          OF example_Decode_single]
        Prepare_sizing_exactly_one[of example_prepare_env Builder_new
          "[example_config\<lparr>InstanceFlavor := ''''\<rparr>]" "example_config\<lparr>InstanceFlavor := ''''\<rparr>",
          OF example_Decode_single]
        Prepare_sizing_exactly_one[of example_prepare_env Builder_new
          "[example_config\<lparr>InstanceFlavor := '''', InstanceMemory := 4\<rparr>]"
          "example_config\<lparr>InstanceFlavor := '''', InstanceMemory := 4\<rparr>",
          OF example_Decode_single]
  by code_simp

text \<open>
  Claim C7. For a decoded configuration with both \<open>base_image_id\<close> and \<open>base_os_code\<close>
  set, and for one with neither, \<open>Prepare\<close> returns an error. With exactly one of them
  set the base image check adds nothing: \<open>Prepare\<close> accepts the configuration exactly
  when the other checks (communicator, sizing, required fields, timeout) find no error.
\<close>

theorem Prepare_base_image_exactly_one:
  assumes "Decode env (config self) raws = (c, None)"
  shows "(BaseImageId c \<noteq> '''' \<and> BaseOsCode c \<noteq> ''''
          \<longrightarrow> snd (Prepare env self raws) \<noteq> None)
       \<and> (BaseImageId c = '''' \<and> BaseOsCode c = ''''
          \<longrightarrow> snd (Prepare env self raws) \<noteq> None)
       \<and> ((BaseImageId c \<noteq> '''') \<noteq> (BaseOsCode c \<noteq> '''')
          \<longrightarrow> (snd (Prepare env self raws) = None \<longleftrightarrow>
                 snd (commPrepare env (Comm (Prepare_defaults env c))) = []
               \<and> Errors (Prepare_sizing (Prepare_defaults env c) \<lparr>Errors = []\<rparr>) = []
               \<and> Errors (Prepare_required (Prepare_defaults env c) \<lparr>Errors = []\<rparr>) = []
               \<and> Errors (snd (Prepare_timeout env (Prepare_defaults env c) \<lparr>Errors = []\<rparr>)) = []))"
proof -
  have bi: "Errors (Prepare_base_image (Prepare_defaults env c) \<lparr>Errors = []\<rparr>) = [] \<longleftrightarrow>
            (BaseImageId c \<noteq> '''') \<noteq> (BaseOsCode c \<noteq> '''')"
    by (auto simp: Errors_Prepare_base_image Prepare_defaults_kept)
  show ?thesis
    unfolding Prepare_accepts_iff[OF assms] using bi by blast
qed

theorem Prepare_base_image_exactly_one_witness:
  "Decode example_prepare_env (config Builder_new) [example_config] = (example_config, None)
   \<and> BaseImageId example_config = '''' \<and> BaseOsCode example_config \<noteq> ''''
   \<and> snd (Prepare example_prepare_env Builder_new [example_config]) = None
   \<and> snd (Prepare example_prepare_env Builder_new
             [example_config\<lparr>BaseImageId := ''1234'', BaseOsCode := ''''\<rparr>]) = None
   \<and> snd (Prepare example_prepare_env Builder_new [example_config\<lparr>BaseImageId := ''1234''\<rparr>])
        \<noteq> None
   \<and> snd (Prepare example_prepare_env Builder_new [example_config\<lparr>BaseOsCode := ''''\<rparr>])
        \<noteq> None"
  using Prepare_base_image_exactly_one[of example_prepare_env Builder_new "[example_config]"
          example_config, OF example_Decode_single]
        Prepare_base_image_exactly_one[of example_prepare_env Builder_new
          "[example_config\<lparr>BaseImageId := ''1234'', BaseOsCode := ''''\<rparr>]"
          "example_config\<lparr>BaseImageId := ''1234'', BaseOsCode := ''''\<rparr>",
          OF example_Decode_single]
        Prepare_base_image_exactly_one[of example_prepare_env Builder_new
          "[example_config\<lparr>BaseImageId := ''1234''\<rparr>]" "example_config\<lparr>BaseImageId := ''1234''\<rparr>",
          OF example_Decode_single]
        Prepare_base_image_exactly_one[of example_prepare_env Builder_new
          "[example_config\<lparr>BaseOsCode := ''''\<rparr>]" "example_config\<lparr>BaseOsCode := ''''\<rparr>",
          OF example_Decode_single]
  by code_simp

text \<open>
  Claim C10. Explicit sizing values that are zero or negative count as unset. For a
  decoded configuration with \<open>instance_flavor\<close> set and none of \<open>instance_cpu\<close>,
  \<open>instance_memory\<close>, \<open>instance_disk_capacity\<close> strictly positive, the flag \<open>byFlavor\<close>
  stays true, the sizing check appends no error, and \<open>Prepare\<close> accepts the
  configuration exactly when the other checks find no error.
\<close>

theorem Prepare_nonpositive_sizing_unset:
  assumes "Decode env (config self) raws = (c, None)"
      and "InstanceFlavor c \<noteq> ''''"
      and "InstanceCpu c \<le> 0" and "InstanceMemory c \<le> 0" and "InstanceDiskCapacity c \<le> 0"
  shows "byFlavor c
       \<and> Prepare_sizing c errs = errs
       \<and> (snd (Prepare env self raws) = None \<longleftrightarrow>
             snd (commPrepare env (Comm (Prepare_defaults env c))) = []
           \<and> Errors (Prepare_required (Prepare_defaults env c) \<lparr>Errors = []\<rparr>) = []
           \<and> Errors (Prepare_base_image (Prepare_defaults env c) \<lparr>Errors = []\<rparr>) = []
           \<and> Errors (snd (Prepare_timeout env (Prepare_defaults env c) \<lparr>Errors = []\<rparr>)) = [])"
proof -
  have bf: "byFlavor c" using assms(3-5) by (simp add: byFlavor_iff)
  have ps: "Prepare_sizing c errs = errs" using bf assms(2) by (simp add: Prepare_sizing_def)
  have "Errors (Prepare_sizing (Prepare_defaults env c) \<lparr>Errors = []\<rparr>) = []"
    using bf assms(2) by (simp add: Errors_Prepare_sizing byFlavor_iff Prepare_defaults_kept)
  then show ?thesis
    unfolding Prepare_accepts_iff[OF assms(1)] using bf ps by blast
qed

theorem Prepare_nonpositive_sizing_unset_witness:
  "Decode example_prepare_env (config Builder_new)
     [example_config\<lparr>InstanceCpu := - 2, InstanceMemory := - 1\<rparr>]
     = (example_config\<lparr>InstanceCpu := - 2, InstanceMemory := - 1\<rparr>, None)
   \<and> InstanceFlavor (example_config\<lparr>InstanceCpu := - 2, InstanceMemory := - 1\<rparr>) \<noteq> ''''
   \<and> InstanceCpu (example_config\<lparr>InstanceCpu := - 2, InstanceMemory := - 1\<rparr>) \<le> 0
   \<and> InstanceMemory (example_config\<lparr>InstanceCpu := - 2, InstanceMemory := - 1\<rparr>) \<le> 0
   \<and> InstanceDiskCapacity (example_config\<lparr>InstanceCpu := - 2, InstanceMemory := - 1\<rparr>) \<le> 0
   \<and> byFlavor (example_config\<lparr>InstanceCpu := - 2, InstanceMemory := - 1\<rparr>)
   \<and> Prepare_sizing (example_config\<lparr>InstanceCpu := - 2, InstanceMemory := - 1\<rparr>)
        \<lparr>Errors = []\<rparr> = \<lparr>Errors = []\<rparr>
   \<and> snd (Prepare example_prepare_env Builder_new
             [example_config\<lparr>InstanceCpu := - 2, InstanceMemory := - 1\<rparr>]) = None"
proof -
  have f: "InstanceFlavor (example_config\<lparr>InstanceCpu := - 2, InstanceMemory := - 1\<rparr>) \<noteq> ''''"
    by code_simp
  have c: "InstanceCpu (example_config\<lparr>InstanceCpu := - 2, InstanceMemory := - 1\<rparr>) \<le> 0"
    by code_simp
  have m: "InstanceMemory (example_config\<lparr>InstanceCpu := - 2, InstanceMemory := - 1\<rparr>) \<le> 0"
    by code_simp
  have d: "InstanceDiskCapacity (example_config\<lparr>InstanceCpu := - 2, InstanceMemory := - 1\<rparr>) \<le> 0"
    by code_simp
  show ?thesis
    using Prepare_nonpositive_sizing_unset[of example_prepare_env Builder_new
            "[example_config\<lparr>InstanceCpu := - 2, InstanceMemory := - 1\<rparr>]"
            "example_config\<lparr>InstanceCpu := - 2, InstanceMemory := - 1\<rparr>" "\<lparr>Errors = []\<rparr>",
            OF example_Decode_single f c m d]
    by code_simp
qed

text \<open>
  Claim C8. After a successful decoding \<open>Prepare\<close> runs every check and returns one
  error, built from the whole list of collected errors, or \<open>nil\<close> when the list is
  empty. The list holds every error of the communicator's own check and the message
  of every rule of \<open>Prepare\<close> that the configuration violates: both sizing forms,
  no sizing form, missing \<open>api_key\<close>, missing \<open>username\<close>, missing \<open>image_name\<close>,
  an image type other than \<open>standard\<close>, no base image selector, both base image
  selectors, and a timeout that does not parse.
\<close>

theorem Prepare_aggregates_errors:
  assumes "Decode env (config self) raws = (c, None)"
  shows "snd (Prepare env self raws) =
           (if Errors (Prepare_errs env c) = [] then None
            else Some (GoError (multiErrorString env (Prepare_errs env c))))
       \<and> set (snd (commPrepare env (Comm (Prepare_defaults env c))))
             \<subseteq> set (Errors (Prepare_errs env c))
       \<and> (InstanceFlavor c \<noteq> '''' \<and>
            (0 < InstanceCpu c \<or> 0 < InstanceMemory c \<or> 0 < InstanceDiskCapacity c) \<longrightarrow>
            GoError ''instance_flavor must be specified without instance_cpu, instance_memory, and instance_disk_capacity''
              \<in> set (Errors (Prepare_errs env c)))
       \<and> (InstanceFlavor c = '''' \<and>
            \<not> (0 < InstanceCpu c \<or> 0 < InstanceMemory c \<or> 0 < InstanceDiskCapacity c) \<longrightarrow>
            GoError ''instance_flavor must be specified'' \<in> set (Errors (Prepare_errs env c)))
       \<and> (APIKey c = '''' \<longrightarrow>
            GoError ''api_key or the SOFTLAYER_API_KEY environment variable must be specified''
              \<in> set (Errors (Prepare_errs env c)))
       \<and> (Username c = '''' \<longrightarrow>
            GoError ''username or the SOFTLAYER_USER_NAME environment variable must be specified''
              \<in> set (Errors (Prepare_errs env c)))
       \<and> (ImageName c = '''' \<longrightarrow>
            GoError ''image_name must be specified'' \<in> set (Errors (Prepare_errs env c)))
       \<and> (ImageType c \<noteq> '''' \<and> ImageType c \<noteq> ''standard'' \<longrightarrow>
            GoError (''Unknown image_type '' @ [CHR 0x27] @ ImageType c @ [CHR 0x27]
                     @ ''. Must be '' @ [CHR 0x27] @ ''standard'' @ [CHR 0x27] @ ''.'')
              \<in> set (Errors (Prepare_errs env c)))
       \<and> (BaseImageId c = '''' \<and> BaseOsCode c = '''' \<longrightarrow>
            GoError ''please specify base_image_id or base_os_code''
              \<in> set (Errors (Prepare_errs env c)))
       \<and> (BaseImageId c \<noteq> '''' \<and> BaseOsCode c \<noteq> '''' \<longrightarrow>
            GoError ''please specify only one of base_image_id or base_os_code''
              \<in> set (Errors (Prepare_errs env c)))
       \<and> (case snd (ParseDuration env
                         (if RawStateTimeout c = '''' then ''10m'' else RawStateTimeout c)) of
            None \<Rightarrow> True
          | Some err \<Rightarrow>
              GoError (''Failed parsing state_timeout: '' @ message err)
                \<in> set (Errors (Prepare_errs env c)))"
proof -
  have r: "snd (Prepare env self raws) =
           (if Errors (Prepare_errs env c) = [] then None
            else Some (GoError (multiErrorString env (Prepare_errs env c))))"
    by (simp add: Prepare_decoded[OF assms] Prepare_errs_def)
  have sz: "Errors (Prepare_sizing c \<lparr>Errors = []\<rparr>) =
     (if InstanceFlavor c \<noteq> '''' \<and>
            (0 < InstanceCpu c \<or> 0 < InstanceMemory c \<or> 0 < InstanceDiskCapacity c)
      then [GoError ''instance_flavor must be specified without instance_cpu, instance_memory, and instance_disk_capacity'']
      else if InstanceFlavor c = '''' \<and>
            \<not> (0 < InstanceCpu c \<or> 0 < InstanceMemory c \<or> 0 < InstanceDiskCapacity c)
      then [GoError ''instance_flavor must be specified''] else [])"
    by (auto simp: Errors_Prepare_sizing byFlavor_iff)
  have tm: "\<And>err. snd (ParseDuration env
                         (if RawStateTimeout c = '''' then ''10m'' else RawStateTimeout c))
                   = Some err \<Longrightarrow>
        Errors (snd (Prepare_timeout env (Prepare_defaults env c) \<lparr>Errors = []\<rparr>))
          = [GoError (''Failed parsing state_timeout: '' @ message err)]"
    by (simp add: Errors_Prepare_timeout Prepare_defaults_changed)
  show ?thesis
    apply (intro conjI)
              apply (rule r)
             apply (simp add: Errors_Prepare_errs)
            apply (simp add: Errors_Prepare_errs sz)
           apply (simp add: Errors_Prepare_errs sz)
          apply (simp add: Errors_Prepare_errs Errors_Prepare_required Prepare_defaults_kept)
         apply (simp add: Errors_Prepare_errs Errors_Prepare_required Prepare_defaults_kept)
        apply (simp add: Errors_Prepare_errs Errors_Prepare_required Prepare_defaults_kept)
       apply (simp add: Errors_Prepare_errs Errors_Prepare_required Prepare_defaults_kept
                Prepare_defaults_changed IMAGE_TYPE_STANDARD_def)
      apply (simp add: Errors_Prepare_errs Errors_Prepare_base_image)
     apply (simp add: Errors_Prepare_errs Errors_Prepare_base_image)
    apply (simp add: Errors_Prepare_errs tm split: option.splits)
    done
qed

theorem Prepare_aggregates_errors_witness:
  "Decode example_prepare_env (config Builder_new)
     [Config_zero\<lparr>ImageType := ''flex'', RawStateTimeout := ''soon''\<rparr>]
     = (Config_zero\<lparr>ImageType := ''flex'', RawStateTimeout := ''soon''\<rparr>, None)
   \<and> snd (Prepare example_prepare_env Builder_new
            [Config_zero\<lparr>ImageType := ''flex'', RawStateTimeout := ''soon''\<rparr>]) =
       Some (GoError (example_multiErrorString \<lparr>Errors =
         [GoError ''instance_flavor must be specified'',
          GoError ''api_key or the SOFTLAYER_API_KEY environment variable must be specified'',
          GoError ''username or the SOFTLAYER_USER_NAME environment variable must be specified'',
          GoError ''image_name must be specified'',
          GoError (''Unknown image_type '' @ [CHR 0x27] @ ''flex'' @ [CHR 0x27]
                   @ ''. Must be '' @ [CHR 0x27] @ ''standard'' @ [CHR 0x27] @ ''.''),
          GoError ''please specify base_image_id or base_os_code'',
          GoError ''Failed parsing state_timeout: time: invalid duration soon'']\<rparr>))
   \<and> snd (Prepare example_prepare_env Builder_new
            [example_config\<lparr>InstanceCpu := 2, BaseImageId := ''1234'',
                            Comm := (Comm example_config)\<lparr>Type := ''telnet''\<rparr>\<rparr>]) =
       Some (GoError (example_multiErrorString \<lparr>Errors =
         [GoError ''Communicator type telnet is invalid'',
          GoError ''instance_flavor must be specified without instance_cpu, instance_memory, and instance_disk_capacity'',
          GoError ''please specify only one of base_image_id or base_os_code'']\<rparr>))"
  using Prepare_aggregates_errors[of example_prepare_env Builder_new
          "[Config_zero\<lparr>ImageType := ''flex'', RawStateTimeout := ''soon''\<rparr>]"
          "Config_zero\<lparr>ImageType := ''flex'', RawStateTimeout := ''soon''\<rparr>",
          OF example_Decode_single]
        Prepare_aggregates_errors[of example_prepare_env Builder_new
          "[example_config\<lparr>InstanceCpu := 2, BaseImageId := ''1234'',
                            Comm := (Comm example_config)\<lparr>Type := ''telnet''\<rparr>\<rparr>]"
          "example_config\<lparr>InstanceCpu := 2, BaseImageId := ''1234'',
                            Comm := (Comm example_config)\<lparr>Type := ''telnet''\<rparr>\<rparr>",
          OF example_Decode_single]
  by code_simp

text \<open>
  Claim C6, as the code has it. The timeout string, \<open>10m\<close> when it was left empty, is
  handed to the duration parser. When the parser returns an error, \<open>Prepare\<close> returns an
  error. When \<open>Prepare\<close> accepts the configuration, the parser returned no error and
  \<open>StateTimeout\<close> is the duration it returned, whatever its sign: the code never
  compares the duration with zero.
\<close>

theorem Prepare_timeout_parsed:
  assumes "Decode env (config self) raws = (c, None)"
  shows "(snd (ParseDuration env (if RawStateTimeout c = '''' then ''10m'' else RawStateTimeout c))
            \<noteq> None \<longrightarrow> snd (Prepare env self raws) \<noteq> None)
       \<and> (snd (Prepare env self raws) = None \<longrightarrow>
            ParseDuration env (if RawStateTimeout c = '''' then ''10m'' else RawStateTimeout c)
              = (StateTimeout (config (fst (Prepare env self raws))), None))"
proof -
  let ?s = "if RawStateTimeout c = '''' then ''10m'' else RawStateTimeout c"
  have st: "StateTimeout (config (fst (Prepare env self raws))) = fst (ParseDuration env ?s)"
    by (simp add: Prepare_decoded[OF assms] config_Prepare_checks Prepare_defaults_changed)
  have acc: "snd (Prepare env self raws) = None \<Longrightarrow> snd (ParseDuration env ?s) = None"
    unfolding Prepare_accepts_iff[OF assms]
    by (auto simp: Errors_Prepare_timeout Prepare_defaults_changed
             split: option.splits if_splits)
  show ?thesis
  proof (intro conjI impI)
    assume "snd (ParseDuration env ?s) \<noteq> None"
    then show "snd (Prepare env self raws) \<noteq> None"
      by (metis acc)
  next
    assume a: "snd (Prepare env self raws) = None"
    show "ParseDuration env ?s = (StateTimeout (config (fst (Prepare env self raws))), None)"
      using st acc[OF a] by (simp add: prod_eq_iff)
  qed
qed

theorem Prepare_timeout_parsed_witness:
  "Decode example_prepare_env (config Builder_new) [example_config] = (example_config, None)
   \<and> snd (Prepare example_prepare_env Builder_new [example_config]) = None
   \<and> ParseDuration example_prepare_env ''10m''
       = (StateTimeout (config (fst (Prepare example_prepare_env Builder_new [example_config]))),
          None)
   \<and> StateTimeout (config (fst (Prepare example_prepare_env Builder_new [example_config])))
       = 600000000000
   \<and> snd (ParseDuration example_prepare_env ''soon'') \<noteq> None
   \<and> snd (Prepare example_prepare_env Builder_new [example_config\<lparr>RawStateTimeout := ''soon''\<rparr>])
       \<noteq> None"
  using Prepare_timeout_parsed[of example_prepare_env Builder_new "[example_config]"
          example_config, OF example_Decode_single]
        Prepare_timeout_parsed[of example_prepare_env Builder_new
          "[example_config\<lparr>RawStateTimeout := ''soon''\<rparr>]"
          "example_config\<lparr>RawStateTimeout := ''soon''\<rparr>", OF example_Decode_single]
  by code_simp

text \<open>
  Claim C6 as stated fails: Go's \<open>time.ParseDuration\<close> reads \<open>-10m\<close> as minus ten
  minutes without an error, \<open>Prepare\<close> accepts the configuration, and \<open>StateTimeout\<close> is
  negative.
\<close>

theorem Prepare_accepts_negative_timeout:
  "\<not> (snd (Prepare example_prepare_env Builder_new [example_config\<lparr>RawStateTimeout := ''-10m''\<rparr>])
         = None
       \<longrightarrow> 0 < StateTimeout (config (fst (Prepare example_prepare_env Builder_new
                                           [example_config\<lparr>RawStateTimeout := ''-10m''\<rparr>]))))"
  by code_simp

section \<open>Communicator types other than ssh and winrm\<close>

text \<open>
  The package checks the communicator before a build runs: line 144 of \<open>Prepare\<close> hands
  the communicator configuration to the SDK's check and keeps its errors, so whenever
  that check reports an error, \<open>Prepare\<close> returns an error. \<open>Run\<close> itself takes one of
  two branches, for \<open>winrm\<close> and for \<open>ssh\<close>, and has no branch for any other type: it
  then starts the runner with the empty step list.
\<close>

lemma Prepare_reports_communicator_errors:
  assumes "Decode env (config b) raws = (c, None)"
      and "snd (commPrepare env (Comm (Prepare_defaults env c))) \<noteq> []"
  shows "snd (Prepare env b raws) \<noteq> None"
  using assms Prepare_accepts_iff[of env b raws c] by blast

lemma Run_other_type_no_steps:
  assumes "Type (Comm (config self)) \<noteq> ''ssh''" and "Type (Comm (config self)) \<noteq> ''winrm''"
  shows "hd (events (Run renv self ui hook)) = RunnerRun []"
  using assms by (simp add: Run_events_hd Run_steps_def)

text \<open>
  Claim C4. A configuration whose communicator type is neither \<open>ssh\<close> nor \<open>winrm\<close> is
  to fail with a configuration error before the runner starts. The code misses this
  for the type \<open>none\<close>, which the SDK's communicator check accepts: \<open>Prepare\<close> returns no
  error and leaves the type as it is, and \<open>Run\<close> on the prepared builder takes neither
  branch, starts the runner with no steps, reaches its own log line
  \<open>Failed to find image_id in state. Bug?\<close> and returns a \<open>nil\<close> artifact with a \<open>nil\<close>
  error.
\<close>

theorem Run_starts_runner_for_type_none:
  "Type (Comm example_config_none) \<noteq> ''ssh''
   \<and> Type (Comm example_config_none) \<noteq> ''winrm''
   \<and> snd (Prepare example_prepare_env Builder_new [example_config_none]) = None
   \<and> Type (Comm (config example_builder_none)) = ''none''
   \<and> events (Run example_idle_env example_builder_none () ()) =
       [RunnerRun [], LogPrintln ''Failed to find image_id in state. Bug?'']
   \<and> returned (Run example_idle_env example_builder_none () ()) = Return None None"
  by code_simp

end
